theory Spec2Isabelle
  imports Main
begin

section \<open>JavaScript values and string primitives\<close>

text \<open>
  A JavaScript string is modelled as a \<open>string\<close> whose characters are its code units
  (those below 256). A value of type \<open>string | null | undefined\<close> is a \<open>jsstr\<close>;
  strict equality \<open>===\<close> on such values is equality of \<open>jsstr\<close>.
\<close>

datatype jsstr = Undefined | Null | Str string

datatype js_error = TypeError

text \<open>Truthiness of a \<open>string | null | undefined\<close>: only a non-empty string is truthy.\<close>

fun js_truthy :: "jsstr \<Rightarrow> bool" where
  "js_truthy (Str s) = (s \<noteq> [])"
| "js_truthy Undefined = False"
| "js_truthy Null = False"

text \<open>\<open>ToString\<close>, applied by \<open>String.prototype.replace\<close> to its replacement value.\<close>

fun js_ToString :: "jsstr \<Rightarrow> string" where
  "js_ToString (Str s) = s"
| "js_ToString Undefined = ''undefined''"
| "js_ToString Null = ''null''"

text \<open>\<open>xs[0]\<close> on an array of strings: \<open>undefined\<close> when the array is empty.\<close>

fun index0 :: "string list \<Rightarrow> jsstr" where
  "index0 [] = Undefined"
| "index0 (v # vs) = Str v"

fun starts_with :: "string \<Rightarrow> string \<Rightarrow> bool" where
  "starts_with [] s = True"
| "starts_with (p # ps) [] = False"
| "starts_with (p # ps) (c # cs) = (p = c \<and> starts_with ps cs)"

text \<open>
  \<open>find_first pat s\<close> locates the first occurrence of \<open>pat\<close> in \<open>s\<close> and returns the
  text before it and the text after it.
\<close>

fun find_first :: "string \<Rightarrow> string \<Rightarrow> (string \<times> string) option" where
  "find_first pat [] = (if pat = [] then Some ([], []) else None)"
| "find_first pat (c # cs) =
     (if starts_with pat (c # cs) then Some ([], drop (length pat) (c # cs))
      else (case find_first pat cs of
              None \<Rightarrow> None
            | Some (b, a) \<Rightarrow> Some (c # b, a)))"

text \<open>
  \<open>GetSubstitution\<close> for a string pattern (no capture groups): in the replacement text
  \<open>$$\<close> stands for a dollar sign, \<open>$&\<close> for the matched text, \<open>$`\<close> for the text
  before the match and \<open>$'\<close> for the text after it; everything else is literal.
\<close>

fun getSubstitution :: "string \<Rightarrow> string \<Rightarrow> string \<Rightarrow> string \<Rightarrow> string" where
  "getSubstitution m b a [] = []"
| "getSubstitution m b a [c] = [c]"
| "getSubstitution m b a (c # d # ds) =
     (if c = CHR ''$'' then
        (if d = CHR ''$'' then CHR ''$'' # getSubstitution m b a ds
         else if d = CHR ''&'' then m @ getSubstitution m b a ds
         else if d = CHR 0x60 then b @ getSubstitution m b a ds
         else if d = CHR 0x27 then a @ getSubstitution m b a ds
         else c # getSubstitution m b a (d # ds))
      else c # getSubstitution m b a (d # ds))"

text \<open>\<open>s.replace(pat, repl)\<close> with a string pattern: the first occurrence only.\<close>

definition js_replace :: "string \<Rightarrow> string \<Rightarrow> string \<Rightarrow> string" where
  "js_replace s pat repl =
     (case find_first pat s of
        None \<Rightarrow> s
      | Some (b, a) \<Rightarrow> b @ getSubstitution pat b a repl @ a)"

text \<open>\<open>s.substr(start, len)\<close>.\<close>

definition js_substr :: "string \<Rightarrow> int \<Rightarrow> int \<Rightarrow> string" where
  "js_substr s start len =
     (let size = int (length s);
          st = (if start < 0 then max (size + start) 0 else min start size);
          ln = min (max len 0) size;
          en = min (st + ln) size
      in take (nat (en - st)) (drop (nat st) s))"

section \<open>Ranges, replace items and editor effects\<close>

record Position =
  line :: nat
  character :: nat

record Range =
  start :: Position
  endp :: Position

text \<open>
  The editor's \<open>new Range(startLine, startCharacter, endLine, endCharacter)\<close> orders its
  two positions.
\<close>

definition isBefore :: "Position \<Rightarrow> Position \<Rightarrow> bool" where
  "isBefore p q = (line p < line q \<or> (line p = line q \<and> character p < character q))"

definition new_Range :: "nat \<Rightarrow> nat \<Rightarrow> nat \<Rightarrow> nat \<Rightarrow> Range" where
  "new_Range sl sc el ec =
     (let s = \<lparr>line = sl, character = sc\<rparr>; e = \<lparr>line = el, character = ec\<rparr>
      in if isBefore s e then \<lparr>start = s, endp = e\<rparr> else \<lparr>start = e, endp = s\<rparr>)"

record ReplaceItem =
  ri_value :: string
  ri_range :: Range

record TextEditor =
  document_uri :: string

text \<open>
  What a handler asks of the editor, in call order: \<open>edit.replace(range, text)\<close>,
  \<open>editor.document.save()\<close> and \<open>workspace.save(uri)\<close>.
\<close>

datatype event =
    EditReplace Range string
  | DocumentSave
  | WorkspaceSave string

fun is_save :: "event \<Rightarrow> bool" where
  "is_save (EditReplace r t) = False"
| "is_save DocumentSave = True"
| "is_save (WorkspaceSave u) = True"

record status =
  inProgress :: bool
  replaceItems :: "ReplaceItem list"

section \<open>The command handlers\<close>

text \<open>The range a handler rebuilds from the four numbers of a replace item.\<close>

definition item_Range :: "ReplaceItem \<Rightarrow> Range" where
  "item_Range info =
     new_Range (line (start (ri_range info))) (character (start (ri_range info)))
               (line (endp (ri_range info))) (character (endp (ri_range info)))"

text \<open>
  \<open>replaceVersion\<close>: the guarded block replaces; the save that follows it is outside the
  guard and dereferences \<open>editor\<close>, which throws when there is no editor.
\<close>

definition replaceVersion ::
  "TextEditor option \<Rightarrow> ReplaceItem option \<Rightarrow> status \<Rightarrow> js_error + (status \<times> event list)" where
  "replaceVersion editor info st =
     (let (st1, evs) =
            (case (editor, info) of
               (Some ed, Some i) \<Rightarrow>
                 if \<not> inProgress st
                 then ((st\<lparr>inProgress := True\<rparr>)\<lparr>inProgress := False\<rparr>,
                       [EditReplace (item_Range i) (ri_value i)])
                 else (st, [])
             | _ \<Rightarrow> (st, []))
      in case editor of
           None \<Rightarrow> Inl TypeError
         | Some ed \<Rightarrow> Inr (st1, evs @ [WorkspaceSave (document_uri ed)]))"

text \<open>
  The loop of \<open>updateAll\<close>: \<open>for (i = length - 1; i > -1; i--)\<close>. The counter of the
  model is \<open>i + 1\<close>.
\<close>

fun updateAll_loop :: "ReplaceItem list \<Rightarrow> nat \<Rightarrow> event list \<Rightarrow> event list" where
  "updateAll_loop items 0 evs = evs"
| "updateAll_loop items (Suc i) evs =
     (let rItem = items ! i
      in updateAll_loop items i (evs @ [EditReplace (item_Range rItem) (ri_value rItem)]))"

definition updateAll :: "TextEditor option \<Rightarrow> status \<Rightarrow> status \<times> event list" where
  "updateAll editor st =
     (case editor of
        Some ed \<Rightarrow>
          if \<not> inProgress st \<and> length (replaceItems st) > 0
          then (let st1 = st\<lparr>inProgress := True\<rparr>;
                    evs = updateAll_loop (replaceItems st1) (length (replaceItems st1)) [];
                    st2 = st1\<lparr>inProgress := False\<rparr>
                in (st2, evs @ [WorkspaceSave (document_uri ed)]))
          else (st, [])
      | None \<Rightarrow> (st, []))"

section \<open>Further string primitives\<close>

text \<open>\<open>s.split('\n')\<close>: the segments between line feeds; an empty string has one segment.\<close>

fun split_on :: "char \<Rightarrow> string \<Rightarrow> string list" where
  "split_on d [] = [[]]"
| "split_on d (c # cs) =
     (if c = d then [] # split_on d cs
      else (case split_on d cs of
              [] \<Rightarrow> [[c]]
            | p # ps \<Rightarrow> (c # p) # ps))"

text \<open>
  \<open>s.trim()\<close>: white space and line terminators among the code units below 256 are
  tab, line feed, vertical tab, form feed, carriage return, space and no-break space.
\<close>

definition js_whitespace :: "char \<Rightarrow> bool" where
  "js_whitespace c =
     (c = CHR 0x09 \<or> c = CHR 0x0A \<or> c = CHR 0x0B \<or> c = CHR 0x0C \<or> c = CHR 0x0D
      \<or> c = CHR 0x20 \<or> c = CHR 0xA0)"

definition js_trim :: "string \<Rightarrow> string" where
  "js_trim s = rev (dropWhile js_whitespace (rev (dropWhile js_whitespace s)))"

text \<open>A non-negative integer as a template literal prints it: decimal digits.\<close>

definition digit_char :: "nat \<Rightarrow> char" where
  "digit_char d = ''0123456789'' ! d"

function show_nat :: "nat \<Rightarrow> string" where
  "show_nat n = (if n < 10 then [digit_char n] else show_nat (n div 10) @ [digit_char (n mod 10)])"
  by pat_completeness auto
termination
  by (relation "measure id") auto

declare show_nat.simps [simp del]

section \<open>The replace command payload\<close>

text \<open>
  \<open>JSON.stringify\<close> quotes a string: the quote and the backslash are escaped, the
  control characters are written \<open>\b \t \n \f \r\<close> or \<open>\u00XX\<close> in lower-case
  hexadecimal, every other code unit stands for itself.
\<close>

definition hex_lower :: "nat \<Rightarrow> char" where
  "hex_lower d = ''0123456789abcdef'' ! d"

definition hex_upper :: "nat \<Rightarrow> char" where
  "hex_upper d = ''0123456789ABCDEF'' ! d"

definition json_escape_char :: "char \<Rightarrow> string" where
  "json_escape_char c =
     (if c = CHR 0x08 then [CHR 0x5C, CHR ''b'']
      else if c = CHR 0x09 then [CHR 0x5C, CHR ''t'']
      else if c = CHR 0x0A then [CHR 0x5C, CHR ''n'']
      else if c = CHR 0x0C then [CHR 0x5C, CHR ''f'']
      else if c = CHR 0x0D then [CHR 0x5C, CHR ''r'']
      else if c = CHR 0x22 then [CHR 0x5C, CHR 0x22]
      else if c = CHR 0x5C then [CHR 0x5C, CHR 0x5C]
      else if (of_char c :: nat) < 32
        then [CHR 0x5C, CHR ''u'', CHR ''0'', CHR ''0'',
              hex_lower (of_char c div 16), hex_lower (of_char c mod 16)]
      else [c])"

definition json_quote :: "string \<Rightarrow> string" where
  "json_quote s = [CHR 0x22] @ concat (map json_escape_char s) @ [CHR 0x22]"

definition json_position :: "Position \<Rightarrow> string" where
  "json_position p =
     ''{'' @ json_quote ''line'' @ '':'' @ show_nat (line p) @ '','' @
     json_quote ''character'' @ '':'' @ show_nat (character p) @ ''}''"

text \<open>
  \<open>JSON.stringify(replaceData)\<close>: the keys in the order of the object literal,
  \<open>value\<close> then \<open>range\<close>, \<open>start\<close> then \<open>end\<close>, \<open>line\<close> then \<open>character\<close>.
\<close>

definition JSON_stringify :: "ReplaceItem \<Rightarrow> string" where
  "JSON_stringify r =
     ''{'' @ json_quote ''value'' @ '':'' @ json_quote (ri_value r) @ '','' @
     json_quote ''range'' @ '':{'' @
       json_quote ''start'' @ '':'' @ json_position (start (ri_range r)) @ '','' @
       json_quote ''end'' @ '':'' @ json_position (endp (ri_range r)) @ ''}}''"

text \<open>
  \<open>encodeURI\<close>: letters, digits and \<open>; / ? : @ & = + $ , # - _ . ! ~ * ' ( )\<close> stand for
  themselves; every other code unit is written as the bytes of its UTF-8 encoding, each
  as \<open>%XX\<close> in upper-case hexadecimal.
\<close>

definition uri_unescaped :: "char \<Rightarrow> bool" where
  "uri_unescaped c =
     (let n = (of_char c :: nat)
      in (65 \<le> n \<and> n \<le> 90) \<or> (97 \<le> n \<and> n \<le> 122) \<or> (48 \<le> n \<and> n \<le> 57)
         \<or> c \<in> set '';/?:@&=+$,#-_.!~*()'' \<or> c = CHR 0x27)"

definition percent_byte :: "nat \<Rightarrow> string" where
  "percent_byte b = [CHR ''%'', hex_upper (b div 16), hex_upper (b mod 16)]"

definition encodeURI_char :: "char \<Rightarrow> string" where
  "encodeURI_char c =
     (let n = (of_char c :: nat)
      in if uri_unescaped c then [c]
         else if n < 128 then percent_byte n
         else percent_byte (192 + n div 64) @ percent_byte (128 + n mod 64))"

definition encodeURI :: "string \<Rightarrow> string" where
  "encodeURI s = concat (map encodeURI_char s)"

section \<open>The decoration builder\<close>

datatype Language = Rust | Golang | JS | Python | OtherLanguage

datatype placement = before | after

datatype dtype = COMP | INCOMP | ERROR

record DecorationPreferences =
  position :: placement
  compatibleText :: string
  incompatibleText :: string
  errorText :: string
  vulnText :: string

record Item =
  key :: string
  item_value :: jsstr
  item_range :: Range
  item_line :: nat
  endOfLine :: nat
  decoRange :: Range

record MarkdownString =
  md_value :: string
  isTrusted :: bool

record DecorationOptions =
  deco_range :: Range
  hoverMessage :: MarkdownString
  render_position :: placement
  contentText :: string

text \<open>
  What the builder imports from outside this repository's sources: \<open>checkVersion\<close>
  (returning \<open>satisfies\<close> and \<open>maxSatisfying\<close>, a version or \<open>null\<close>), the semver
  library's \<open>validRange\<close> (a normalised range or \<open>null\<close>), the escaping that the editor's
  \<open>MarkdownString.appendText\<close> applies to plain text, and the command identifier
  \<open>Configs.REPLACE_VERSIONS\<close>.
\<close>

record externals =
  checkVersion :: "jsstr \<Rightarrow> string list \<Rightarrow> bool \<times> jsstr"
  validRange :: "jsstr \<Rightarrow> jsstr"
  escapeText :: "string \<Rightarrow> string"
  REPLACE_VERSIONS :: string

definition new_MarkdownString :: "string \<Rightarrow> MarkdownString" where
  "new_MarkdownString s = \<lparr>md_value = s, isTrusted = False\<rparr>"

definition appendMarkdown :: "MarkdownString \<Rightarrow> string \<Rightarrow> MarkdownString" where
  "appendMarkdown m s = m\<lparr>md_value := md_value m @ s\<rparr>"

definition appendText :: "externals \<Rightarrow> MarkdownString \<Rightarrow> string \<Rightarrow> MarkdownString" where
  "appendText ext m s = m\<lparr>md_value := md_value m @ escapeText ext s\<rparr>"

text \<open>\<open>item.value?.replace(",", "")\<close>.\<close>

fun normalize_value :: "jsstr \<Rightarrow> jsstr" where
  "normalize_value (Str s) = Str (js_replace s '','' '''')"
| "normalize_value Undefined = Undefined"
| "normalize_value Null = Undefined"

text \<open>\<open>vuln?.get(version)\<close>: a map keyed by strings has no entry for \<open>undefined\<close>.\<close>

fun vuln_get :: "(string \<Rightarrow> string list option) option \<Rightarrow> jsstr \<Rightarrow> string list option" where
  "vuln_get None v = None"
| "vuln_get (Some m) (Str s) = m s"
| "vuln_get (Some m) Undefined = None"
| "vuln_get (Some m) Null = None"

definition formatError :: "externals \<Rightarrow> string \<Rightarrow> MarkdownString" where
  "formatError ext error =
     (let error_parts = split_on (CHR 0x0A) error;
          markdown = new_MarkdownString ''#### Errors '';
          markdown = appendMarkdown markdown [CHR 0x0A]
      in fold (\<lambda>part md.
                 appendMarkdown (appendText ext (appendMarkdown md ''* '') (js_trim part))
                   [CHR 0x0A])
              (filter (\<lambda>s. s \<noteq> []) error_parts) markdown)"

fun getContentText :: "DecorationPreferences \<Rightarrow> dtype \<Rightarrow> string" where
  "getContentText prefs COMP = compatibleText prefs"
| "getContentText prefs INCOMP = incompatibleText prefs"
| "getContentText prefs ERROR = errorText prefs"

definition getLinks :: "Language \<Rightarrow> string \<Rightarrow> string" where
  "getLinks lang k =
     (let cleanKey = filter (\<lambda>c. c \<noteq> CHR 0x22) k
      in case lang of
           Rust \<Rightarrow> '' _( [View Crate](https://crates.io/crates/'' @ cleanKey @
                    '') | [Check Reviews](https://web.crev.dev/rust-reviews/crate/'' @
                    cleanKey @ '') )_''
         | Golang \<Rightarrow> '' _( [View Module](https://pkg.go.dev/'' @ cleanKey @
                      '') | [Check Docs](https://pkg.go.dev/'' @ cleanKey @
                      ''#section-documentation) )_''
         | JS \<Rightarrow> '' _( [View Package](https://npmjs.com/package/'' @ cleanKey @ '') )_''
         | Python \<Rightarrow> '' _( [View Package](https://pypi.org/project/'' @ cleanKey @ '') )_''
         | OtherLanguage \<Rightarrow> [])"

definition getDocsLink :: "Language \<Rightarrow> string \<Rightarrow> string \<Rightarrow> string" where
  "getDocsLink lang k version =
     (case lang of
        Rust \<Rightarrow> ''[(docs)](https://docs.rs/crate/'' @ k @ ''/'' @ version @ '')''
      | Golang \<Rightarrow> ''[(docs)](https://pkg.go.dev/'' @ k @ ''@'' @ version @
                    ''#section-documentation)''
      | JS \<Rightarrow> ''[(docs)](https://npmjs.com/package/'' @ k @ ''/v/'' @ version @ '')''
      | Python \<Rightarrow> ''[(docs)](https://pypi.org/project/'' @ k @ ''/'' @ version @ '')''
      | OtherLanguage \<Rightarrow> [])"

definition appendVulnerabilities ::
  "MarkdownString \<Rightarrow> (string \<Rightarrow> string list option) option \<Rightarrow> jsstr \<Rightarrow> MarkdownString" where
  "appendVulnerabilities hover vuln version =
     (case vuln_get vuln version of
        None \<Rightarrow> hover
      | Some v \<Rightarrow>
          if length v > 0
          then (let hover1 = appendMarkdown hover ''#### Vulnerabilities (Current)'';
                    vulnTexts = map (\<lambda>a. '' - ['' @ a @ ''](https://osv.dev/vulnerability/'' @
                                         a @ '') '' @ [CHR 0x0A]) v
                in appendMarkdown hover1 ([CHR 0x0A] @ concat vulnTexts))
          else hover)"

text \<open>The replace item that \<open>appendVersions\<close> attaches to a version of the list.\<close>

definition replaceData :: "Item \<Rightarrow> string \<Rightarrow> ReplaceItem" where
  "replaceData item version =
     \<lparr>ri_value = version,
      ri_range = \<lparr>start = \<lparr>line = line (start (item_range item)),
                             character = character (start (item_range item))\<rparr>,
                  endp = \<lparr>line = line (endp (item_range item)),
                            character = character (endp (item_range item))\<rparr>\<rparr>\<rparr>"

definition version_vulnText ::
  "DecorationPreferences \<Rightarrow> (string \<Rightarrow> string list option) option \<Rightarrow> string \<Rightarrow> string" where
  "version_vulnText prefs vuln version =
     (case vuln_get vuln (Str version) of
        None \<Rightarrow> []
      | Some v \<Rightarrow>
          if length v > 0 then js_replace (vulnText prefs) ''${count}'' (show_nat (length v))
          else [])"

text \<open>The markdown of one entry: \<open>command\<close> in the body of the loop.\<close>

definition version_command ::
  "externals \<Rightarrow> Item \<Rightarrow> string \<Rightarrow> (string \<Rightarrow> string list option) option \<Rightarrow>
   DecorationPreferences \<Rightarrow> Language \<Rightarrow> nat \<Rightarrow> string \<Rightarrow> string" where
  "version_command ext item maxSatisfying vuln prefs lang i version =
     (let isCurrent = (version = maxSatisfying);
          encoded = encodeURI (JSON_stringify (replaceData item version));
          docs = (if i = 0 \<or> isCurrent then getDocsLink lang (key item) version else []);
          vulnText = version_vulnText prefs vuln version
      in (if isCurrent then ''**'' else []) @ ''['' @ version @ ''](command:'' @
         REPLACE_VERSIONS ext @ ''?'' @ encoded @ '')'' @ docs @
         (if isCurrent then ''**'' else []) @ ''  '' @ vulnText)"

text \<open>
  The loop of \<open>appendVersions\<close>, \<open>for (i = 0; i < versions.length; i++)\<close>, on the
  entries from index \<open>i\<close> on.
\<close>

fun appendVersions_from ::
  "externals \<Rightarrow> Item \<Rightarrow> string \<Rightarrow> (string \<Rightarrow> string list option) option \<Rightarrow>
   DecorationPreferences \<Rightarrow> Language \<Rightarrow> nat \<Rightarrow> string list \<Rightarrow> MarkdownString \<Rightarrow> MarkdownString" where
  "appendVersions_from ext item maxSatisfying vuln prefs lang i [] hover = hover"
| "appendVersions_from ext item maxSatisfying vuln prefs lang i (version # rest) hover =
     appendVersions_from ext item maxSatisfying vuln prefs lang (Suc i) rest
       (appendMarkdown (appendMarkdown hover ([CHR 0x0A] @ '' * ''))
          (version_command ext item maxSatisfying vuln prefs lang i version))"

definition appendVersions ::
  "externals \<Rightarrow> MarkdownString \<Rightarrow> string list \<Rightarrow> Item \<Rightarrow> string \<Rightarrow>
   (string \<Rightarrow> string list option) option \<Rightarrow> DecorationPreferences \<Rightarrow> Language \<Rightarrow> MarkdownString" where
  "appendVersions ext hover versions item maxSatisfying vuln prefs lang =
     appendVersions_from ext item maxSatisfying vuln prefs lang 0 versions hover"

text \<open>\<open>maxSatisfying ?? ""\<close>.\<close>

fun nullish_empty :: "jsstr \<Rightarrow> string" where
  "nullish_empty (Str s) = s"
| "nullish_empty Undefined = []"
| "nullish_empty Null = []"

text \<open>\<open>if (error)\<close>: an absent error and the empty string are both falsy.\<close>

fun error_supplied :: "string option \<Rightarrow> bool" where
  "error_supplied None = False"
| "error_supplied (Some e) = (e \<noteq> [])"

text \<open>
  The block under \<open>if (version == "?")\<close>: the block's own \<open>version\<close> is \<open>versions[0]\<close>;
  reading \<open>.length\<close> of \<open>undefined\<close> throws.
\<close>

definition autofill :: "Item \<Rightarrow> jsstr \<Rightarrow> string list \<Rightarrow> js_error + event list" where
  "autofill item version versions =
     (if version = Str ''?''
      then (case index0 versions of
              Str v \<Rightarrow> Inr [EditReplace (item_range item)
                               (js_substr v 1 (int (length v) - 2)), DocumentSave]
            | Undefined \<Rightarrow> Inl TypeError
            | Null \<Rightarrow> Inl TypeError)
      else Inr [])"

text \<open>The two tests that follow the block, on the builder's own \<open>version\<close>.\<close>

definition classify :: "externals \<Rightarrow> jsstr \<Rightarrow> string list \<Rightarrow> bool \<Rightarrow> jsstr \<Rightarrow> dtype" where
  "classify ext version versions satisfies maxSatisfying =
     (if \<not> js_truthy (validRange ext version) then ERROR
      else if index0 versions \<noteq> maxSatisfying then (if satisfies then COMP else INCOMP)
      else COMP)"

definition decoration_range :: "DecorationPreferences \<Rightarrow> Item \<Rightarrow> Range" where
  "decoration_range prefs item =
     (if position prefs = after then decoRange item
      else new_Range (item_line item) 0 (item_line item) (endOfLine item))"

text \<open>
  \<open>decoration\<close> returns the decoration and the classification; the third component is
  what it asked of the editor on the way.
\<close>

definition decoration ::
  "externals \<Rightarrow> Item \<Rightarrow> string list \<Rightarrow> DecorationPreferences \<Rightarrow> Language \<Rightarrow>
   (string \<Rightarrow> string list option) option \<Rightarrow> string option \<Rightarrow>
   js_error + (DecorationOptions \<times> dtype \<times> event list)" where
  "decoration ext item versions prefs lang vuln error =
     (let version = normalize_value (item_value item);
          (satisfies, maxSatisfying) = checkVersion ext version versions
      in if error_supplied error
         then Inr (\<lparr>deco_range = decoration_range prefs item,
                    hoverMessage = formatError ext (the error),
                    render_position = position prefs,
                    contentText = []\<rparr>, ERROR, [])
         else
           (let hover1 = appendVulnerabilities (new_MarkdownString []) vuln version;
                hover2 = appendMarkdown hover1 ''#### Versions'';
                hover3 = appendMarkdown hover2 (getLinks lang (key item));
                hover4 = hover3\<lparr>isTrusted := True\<rparr>;
                hover5 = appendVersions ext hover4 versions item
                           (nullish_empty maxSatisfying) vuln prefs lang
            in case autofill item version versions of
                 Inl e \<Rightarrow> Inl e
               | Inr evs \<Rightarrow>
                   (let type = classify ext version versions satisfies maxSatisfying;
                        text0 = js_replace (getContentText prefs type) ''${version}''
                                  (js_ToString (index0 versions));
                        text1 = (case vuln_get vuln version of
                                   None \<Rightarrow> text0
                                 | Some vulnerabilities \<Rightarrow>
                                     if length vulnerabilities > 0
                                     then text0 @ [CHR 0x09] @
                                          js_replace (vulnText prefs) ''${count}''
                                            (show_nat (length vulnerabilities))
                                     else text0)
                    in Inr (\<lparr>deco_range = decoration_range prefs item,
                             hoverMessage = hover5,
                             render_position = position prefs,
                             contentText = text1\<rparr>, type, evs))))"

section \<open>Opening a command link\<close>





























section \<open>Reading a result\<close>

text \<open>The parts of what \<open>decoration\<close> returns; \<open>None\<close> when it threw.\<close>

fun result_type :: "js_error + (DecorationOptions \<times> dtype \<times> event list) \<Rightarrow> dtype option" where
  "result_type (Inl e) = None"
| "result_type (Inr (d, t, evs)) = Some t"

fun result_contentText ::
  "js_error + (DecorationOptions \<times> dtype \<times> event list) \<Rightarrow> string option" where
  "result_contentText (Inl e) = None"
| "result_contentText (Inr (d, t, evs)) = Some (contentText d)"

fun result_hover ::
  "js_error + (DecorationOptions \<times> dtype \<times> event list) \<Rightarrow> string option" where
  "result_hover (Inl e) = None"
| "result_hover (Inr (d, t, evs)) = Some (md_value (hoverMessage d))"

fun result_events ::
  "js_error + (DecorationOptions \<times> dtype \<times> event list) \<Rightarrow> event list option" where
  "result_events (Inl e) = None"
| "result_events (Inr (d, t, evs)) = Some evs"

text \<open>
  The entries of the version list as \<open>appendVersions\<close> renders them, in order; each is
  appended to the hover document after a line feed and \<open>" * "\<close>. An entry is bold when
  its markdown opens with \<open>**\<close>.
\<close>

definition version_bullets ::
  "externals \<Rightarrow> Item \<Rightarrow> string \<Rightarrow> (string \<Rightarrow> string list option) option \<Rightarrow>
   DecorationPreferences \<Rightarrow> Language \<Rightarrow> string list \<Rightarrow> string list" where
  "version_bullets ext item maxSatisfying vuln prefs lang versions =
     map (\<lambda>i. version_command ext item maxSatisfying vuln prefs lang i (versions ! i))
       [0..<length versions]"

definition bullet_line :: "string \<Rightarrow> string" where
  "bullet_line b = [CHR 0x0A] @ '' * '' @ b"

definition bullet_lines :: "string list \<Rightarrow> string" where
  "bullet_lines bs = concat (map bullet_line bs)"

definition is_bold :: "string \<Rightarrow> bool" where
  "is_bold b = starts_with ''**'' b"

text \<open>The bullet that \<open>formatError\<close> writes for one segment of the error text.\<close>

definition error_bullet :: "externals \<Rightarrow> string \<Rightarrow> string" where
  "error_bullet ext part = ''* '' @ escapeText ext (js_trim part) @ [CHR 0x0A]"

section \<open>Example inputs\<close>

text \<open>
  The answers of \<open>checkVersion\<close> and \<open>validRange\<close> on the strings of the examples:
  against the versions 2.0.0, 1.5.0 and 1.0.0 the range \<open>^1.0.0\<close> is satisfied with
  1.5.0 as its maximum, 1.5.0 and 1.0.0 select themselves, \<open>^3.0.0\<close> is a range that
  nothing satisfies, and the placeholder \<open>?\<close> is no range.
\<close>

definition ex_checkVersion :: "jsstr \<Rightarrow> string list \<Rightarrow> bool \<times> jsstr" where
  "ex_checkVersion v versions =
     (if v = Str ''^1.0.0'' then (True, Str ''1.5.0'')
      else if v = Str ''1.5.0'' then (True, Str ''1.5.0'')
      else if v = Str ''1.0.0'' then (True, Str ''1.0.0'')
      else (False, Null))"

definition ex_validRange :: "jsstr \<Rightarrow> jsstr" where
  "ex_validRange v =
     (if v = Str ''^1.0.0'' then Str ''>=1.0.0 <2.0.0-0''
      else if v = Str ''^3.0.0'' then Str ''>=3.0.0 <4.0.0-0''
      else if v = Str ''1.5.0'' then Str ''1.5.0''
      else if v = Str ''1.0.0'' then Str ''1.0.0''
      else if v = Str ''1.2.3'' then Str ''1.2.3''
      else Null)"

definition ex_ext :: externals where
  "ex_ext = \<lparr>checkVersion = ex_checkVersion, validRange = ex_validRange,
             escapeText = (\<lambda>s. s), REPLACE_VERSIONS = ''dependi.replaceVersion''\<rparr>"

text \<open>
  The answers of \<open>checkVersion\<close> and \<open>validRange\<close> on a requirement in two parts: the
  range \<open>>=1.0 <2.0\<close> is satisfied with 1.5.0 as its maximum, and a text with a comma
  in it is no range.
\<close>

definition ex_ext_parts :: externals where
  "ex_ext_parts =
     \<lparr>checkVersion = (\<lambda>v versions. if v = Str ''>=1.0 <2.0'' then (True, Str ''1.5.0'')
                                     else (False, Null)),
      validRange = (\<lambda>v. if v = Str ''>=1.0 <2.0'' then Str ''>=1.0.0 <2.0.0-0'' else Null),
      escapeText = (\<lambda>s. s), REPLACE_VERSIONS = ''dependi.replaceVersion''\<rparr>"

definition ex_range :: Range where
  "ex_range = \<lparr>start = \<lparr>line = 3, character = 8\<rparr>, endp = \<lparr>line = 3, character = 16\<rparr>\<rparr>"

definition ex_item :: "string \<Rightarrow> Item" where
  "ex_item v = \<lparr>key = ''serde'', item_value = Str v, item_range = ex_range,
                item_line = 3, endOfLine = 17, decoRange = ex_range\<rparr>"

definition ex_prefs :: DecorationPreferences where
  "ex_prefs = \<lparr>position = after, compatibleText = ''ok ${version}'',
               incompatibleText = ''old ${version}'', errorText = ''err ${version}'',
               vulnText = ''vulns: ${count}''\<rparr>"

definition ex_versions :: "string list" where
  "ex_versions = [''2.0.0'', ''1.5.0'', ''1.0.0'']"

definition ex_vuln :: "(string \<Rightarrow> string list option) option" where
  "ex_vuln = Some [''1.5.0'' \<mapsto> [''OSV-1'', ''OSV-2'']]"

definition ex_editor :: TextEditor where
  "ex_editor = \<lparr>document_uri = ''file:///Cargo.toml''\<rparr>"

definition ex_A :: ReplaceItem where
  "ex_A = \<lparr>ri_value = ''1.5.0'',
           ri_range = \<lparr>start = \<lparr>line = 2, character = 5\<rparr>, endp = \<lparr>line = 2, character = 10\<rparr>\<rparr>\<rparr>"

definition ex_B :: ReplaceItem where
  "ex_B = \<lparr>ri_value = ''0.9.1'',
           ri_range = \<lparr>start = \<lparr>line = 2, character = 20\<rparr>, endp = \<lparr>line = 2, character = 25\<rparr>\<rparr>\<rparr>"


section \<open>Facts about the string primitives\<close>

lemma js_substr_strip: "js_substr v 1 (int (length v) - 2) = butlast (tl v)"
proof (cases v)
  case Nil
  then show ?thesis by (simp add: js_substr_def)
next
  case (Cons c cs)
  have "take (length cs - 1) cs = butlast cs"
    by (simp add: butlast_conv_take)
  moreover have "nat (min (1 + min (max (int (length cs) - 1) 0) (1 + int (length cs)))
                        (1 + int (length cs)) - 1) = length cs - 1"
    by (cases cs) (simp_all add: min_def max_def)
  ultimately show ?thesis
    using Cons by (simp add: js_substr_def Let_def)
qed

lemma find_first_None: "c \<notin> set s \<Longrightarrow> find_first [c] s = None"
  by (induction s) auto

lemma starts_with_single: "starts_with [c] s = (\<exists>r. s = c # r)"
  by (cases s) auto

lemma find_first_single:
  "c \<notin> set b \<Longrightarrow> find_first [c] (b @ c # a) = Some (b, a)"
  by (induction b) (auto simp: starts_with_single)

lemma getSubstitution_plain:
  "CHR ''$'' \<notin> set r \<Longrightarrow> getSubstitution m b a r = r"
  by (induction m b a r rule: getSubstitution.induct) auto

lemma js_replace_no_match: "find_first pat s = None \<Longrightarrow> js_replace s pat r = s"
  by (simp add: js_replace_def)

lemma js_replace_plain:
  "find_first pat s = Some (b, a) \<Longrightarrow> CHR ''$'' \<notin> set r \<Longrightarrow>
   js_replace s pat r = b @ r @ a"
  by (simp add: js_replace_def getSubstitution_plain)

section \<open>Facts about the hover document\<close>

lemma formatError_fold:
  "fold (\<lambda>part md.
           appendMarkdown (appendText ext (appendMarkdown md ''* '') (js_trim part)) [CHR 0x0A])
        parts m =
   m\<lparr>md_value := md_value m @ concat (map (error_bullet ext) parts)\<rparr>"
  by (induction parts arbitrary: m)
     (simp_all add: appendMarkdown_def appendText_def error_bullet_def)

lemma formatError_value:
  "formatError ext e =
     \<lparr>md_value = ''#### Errors '' @ [CHR 0x0A] @
                  concat (map (error_bullet ext) (filter (\<lambda>s. s \<noteq> []) (split_on (CHR 0x0A) e))),
      isTrusted = False\<rparr>"
  unfolding formatError_def Let_def formatError_fold
  by (simp add: new_MarkdownString_def appendMarkdown_def)

lemma appendVersions_from_value:
  "appendVersions_from ext item m vuln prefs lang i vs hover =
     hover\<lparr>md_value := md_value hover @
       bullet_lines (map (\<lambda>j. version_command ext item m vuln prefs lang (i + j) (vs ! j))
                      [0..<length vs])\<rparr>"
proof (induction vs arbitrary: i hover)
  case Nil
  then show ?case by (simp add: bullet_lines_def)
next
  case (Cons v vs)
  have split: "[0..<length (v # vs)] = 0 # map Suc [0..<length vs]"
    by (simp add: upt_conv_Cons map_Suc_upt del: upt_Suc)
  show ?case
    unfolding split
    by (simp add: Cons.IH appendMarkdown_def bullet_lines_def bullet_line_def o_def)
qed

lemma appendVersions_value:
  "appendVersions ext hover vs item m vuln prefs lang =
     hover\<lparr>md_value := md_value hover @ bullet_lines (version_bullets ext item m vuln prefs lang vs)\<rparr>"
  by (simp add: appendVersions_def appendVersions_from_value version_bullets_def)

text \<open>
  What \<open>decoration\<close> returns in each of its two branches. Without an error the hover
  document is the advisories of the declared value, the heading, the quick links and the
  entries; the inline text and the classification follow from \<open>classify\<close>.
\<close>

lemma decoration_error:
  "error_supplied error \<Longrightarrow>
   decoration ext item versions prefs lang vuln error =
     Inr (\<lparr>deco_range = decoration_range prefs item,
           hoverMessage = formatError ext (the error),
           render_position = position prefs,
           contentText = []\<rparr>, ERROR, [])"
  by (simp add: decoration_def Let_def case_prod_beta)

lemma decoration_no_error:
  assumes "\<not> error_supplied error"
    and "autofill item (normalize_value (item_value item)) versions = Inr evs"
  shows "decoration ext item versions prefs lang vuln error =
     Inr (\<lparr>deco_range = decoration_range prefs item,
           hoverMessage =
             \<lparr>md_value =
                md_value (appendVulnerabilities (new_MarkdownString []) vuln
                            (normalize_value (item_value item))) @
                ''#### Versions'' @ getLinks lang (key item) @
                bullet_lines (version_bullets ext item
                  (nullish_empty (snd (checkVersion ext (normalize_value (item_value item)) versions)))
                  vuln prefs lang versions),
              isTrusted = True\<rparr>,
           render_position = position prefs,
           contentText =
             (let type = classify ext (normalize_value (item_value item)) versions
                           (fst (checkVersion ext (normalize_value (item_value item)) versions))
                           (snd (checkVersion ext (normalize_value (item_value item)) versions));
                  text0 = js_replace (getContentText prefs type) ''${version}''
                            (js_ToString (index0 versions))
              in case vuln_get vuln (normalize_value (item_value item)) of
                   None \<Rightarrow> text0
                 | Some vulnerabilities \<Rightarrow>
                     if length vulnerabilities > 0
                     then text0 @ [CHR 0x09] @
                          js_replace (vulnText prefs) ''${count}''
                            (show_nat (length vulnerabilities))
                     else text0)\<rparr>,
          classify ext (normalize_value (item_value item)) versions
            (fst (checkVersion ext (normalize_value (item_value item)) versions))
            (snd (checkVersion ext (normalize_value (item_value item)) versions)),
          evs)"
  using assms
  by (simp add: decoration_def Let_def appendVersions_value appendMarkdown_def
        case_prod_beta)

lemma autofill_returns:
  "version = Str ''?'' \<longrightarrow> versions \<noteq> [] \<Longrightarrow>
   \<exists>evs. autofill item version versions = Inr evs"
  by (cases versions) (auto simp: autofill_def)

lemma decoration_result_type:
  assumes "\<not> error_supplied error"
    and "normalize_value (item_value item) = Str ''?'' \<longrightarrow> versions \<noteq> []"
  shows "result_type (decoration ext item versions prefs lang vuln error) =
           Some (classify ext (normalize_value (item_value item)) versions
                   (fst (checkVersion ext (normalize_value (item_value item)) versions))
                   (snd (checkVersion ext (normalize_value (item_value item)) versions)))"
proof -
  obtain evs where "autofill item (normalize_value (item_value item)) versions = Inr evs"
    using autofill_returns [of "normalize_value (item_value item)" versions item] assms(2)
    by blast
  from decoration_no_error [OF assms(1) this, of ext prefs lang vuln]
  show ?thesis by simp
qed


section \<open>Classification\<close>

text \<open>
  C1. With no error supplied, \<open>decoration\<close> returns and its classification is the
  outcome of the decision sequence that starts at \<open>COMP\<close>: \<open>ERROR\<close> when
  \<open>validRange\<close> rejects the normalized declared value; otherwise, when
  \<open>versions[0] !== maxSatisfying\<close>, \<open>COMP\<close> if \<open>satisfies\<close> and \<open>INCOMP\<close> if not;
  otherwise \<open>COMP\<close>. (The builder throws only for the placeholder with an empty version
  list, which the second assumption leaves out.)
\<close>

theorem decoration_classification:
  assumes "\<not> error_supplied error"
    and "normalize_value (item_value item) = Str ''?'' \<longrightarrow> versions \<noteq> []"
    and "version = normalize_value (item_value item)"
    and "checkVersion ext version versions = (satisfies, maxSatisfying)"
  shows "\<exists>deco evs.
           decoration ext item versions prefs lang vuln error =
             Inr (deco,
                  (if \<not> js_truthy (validRange ext version) then ERROR
                   else if index0 versions \<noteq> maxSatisfying
                        then (if satisfies then COMP else INCOMP)
                   else COMP),
                  evs)"
proof -
  obtain evs where "autofill item (normalize_value (item_value item)) versions = Inr evs"
    using autofill_returns [of "normalize_value (item_value item)" versions item] assms(2)
    by blast
  from decoration_no_error [OF assms(1) this, of ext prefs lang vuln]
  show ?thesis
    using assms(3,4) by (simp add: classify_def)
qed

theorem decoration_classification_witness:
  "\<not> error_supplied None
   \<and> normalize_value (item_value (ex_item ''^1.0.0'')) \<noteq> Str ''?''
   \<and> checkVersion ex_ext (Str ''^1.0.0'') ex_versions = (True, Str ''1.5.0'')
   \<and> result_type (decoration ex_ext (ex_item ''^1.0.0'') ex_versions ex_prefs Rust ex_vuln None)
       = Some COMP
   \<and> checkVersion ex_ext (Str ''^3.0.0'') ex_versions = (False, Null)
   \<and> result_type (decoration ex_ext (ex_item ''^3.0.0'') ex_versions ex_prefs Rust ex_vuln None)
       = Some INCOMP"
proof -
  have n1: "normalize_value (item_value (ex_item ''^1.0.0'')) = Str ''^1.0.0''"
    by (simp add: ex_item_def js_replace_def)
  have n3: "normalize_value (item_value (ex_item ''^3.0.0'')) = Str ''^3.0.0''"
    by (simp add: ex_item_def js_replace_def)
  have c1: "checkVersion ex_ext (Str ''^1.0.0'') ex_versions = (True, Str ''1.5.0'')"
    by (simp add: ex_ext_def ex_checkVersion_def)
  have c3: "checkVersion ex_ext (Str ''^3.0.0'') ex_versions = (False, Null)"
    by (simp add: ex_ext_def ex_checkVersion_def)
  have v1: "js_truthy (validRange ex_ext (Str ''^1.0.0''))"
    by (simp add: ex_ext_def ex_validRange_def)
  have v3: "js_truthy (validRange ex_ext (Str ''^3.0.0''))"
    by (simp add: ex_ext_def ex_validRange_def)
  have i0: "index0 ex_versions = Str ''2.0.0''"
    by (simp add: ex_versions_def)
  have h1: "\<not> error_supplied None"
    by simp
  have p1: "normalize_value (item_value (ex_item ''^1.0.0'')) = Str ''?'' \<longrightarrow> ex_versions \<noteq> []"
    by (simp add: ex_versions_def)
  have p3: "normalize_value (item_value (ex_item ''^3.0.0'')) = Str ''?'' \<longrightarrow> ex_versions \<noteq> []"
    by (simp add: ex_versions_def)
  obtain d1 e1 where
    "decoration ex_ext (ex_item ''^1.0.0'') ex_versions ex_prefs Rust ex_vuln None =
       Inr (d1,
            (if \<not> js_truthy (validRange ex_ext (Str ''^1.0.0'')) then ERROR
             else if index0 ex_versions \<noteq> Str ''1.5.0'' then (if True then COMP else INCOMP)
             else COMP), e1)"
    using decoration_classification [OF h1 p1 n1 [symmetric] c1, of ex_prefs Rust ex_vuln]
    by blast
  then have r1: "result_type (decoration ex_ext (ex_item ''^1.0.0'') ex_versions ex_prefs Rust
              ex_vuln None) = Some COMP"
    by (simp add: v1 i0)
  obtain d3 e3 where
    "decoration ex_ext (ex_item ''^3.0.0'') ex_versions ex_prefs Rust ex_vuln None =
       Inr (d3,
            (if \<not> js_truthy (validRange ex_ext (Str ''^3.0.0'')) then ERROR
             else if index0 ex_versions \<noteq> Null then (if False then COMP else INCOMP)
             else COMP), e3)"
    using decoration_classification [OF h1 p3 n3 [symmetric] c3, of ex_prefs Rust ex_vuln]
    by blast
  then have r3: "result_type (decoration ex_ext (ex_item ''^3.0.0'') ex_versions ex_prefs Rust
              ex_vuln None) = Some INCOMP"
    by (simp add: v3 i0)
  show ?thesis
    using r1 r3 c1 c3 by (simp add: n1)
qed

section \<open>A supplied error\<close>

text \<open>
  The inline text when an error is supplied: the text is set only in the branch without
  an error, so here it stays empty, while the \<open>errorText\<close> template would give
  \<open>err 2.0.0\<close>.
\<close>

theorem error_inline_text_counterexample:
  "result_contentText
     (decoration ex_ext (ex_item ''^1.0.0'') ex_versions ex_prefs Rust ex_vuln
        (Some ''fetch failed'')) = Some []
   \<and> js_replace (errorText ex_prefs) ''${version}'' (js_ToString (index0 ex_versions))
       = ''err 2.0.0''"
  by (simp add: decoration_error ex_prefs_def ex_versions_def js_replace_def)

text \<open>
  C3, amended. With a non-empty error string the classification is \<open>ERROR\<close>; the hover
  document is the heading \<open>#### Errors\<close> and, for each non-empty segment of the error
  between line feeds, in order, one bullet holding the segment trimmed and escaped; the
  inline text is empty, and nothing is asked of the editor.
\<close>

theorem decoration_error_supplied:
  assumes "e \<noteq> []"
  shows "decoration ext item versions prefs lang vuln (Some e) =
           Inr (\<lparr>deco_range = decoration_range prefs item,
                 hoverMessage =
                   \<lparr>md_value = ''#### Errors '' @ [CHR 0x0A] @
                      concat (map (\<lambda>part. ''* '' @ escapeText ext (js_trim part) @ [CHR 0x0A])
                                (filter (\<lambda>s. s \<noteq> []) (split_on (CHR 0x0A) e))),
                    isTrusted = False\<rparr>,
                 render_position = position prefs,
                 contentText = []\<rparr>, ERROR, [])"
proof -
  have "error_bullet ext = (\<lambda>part. ''* '' @ escapeText ext (js_trim part) @ [CHR 0x0A])"
    by (rule ext) (simp add: error_bullet_def)
  then show ?thesis
    using assms by (simp add: decoration_error formatError_value)
qed

theorem decoration_error_supplied_witness:
  "''fetch failed'' @ [CHR 0x0A, CHR 0x0A] @ '' retry later '' \<noteq> []
   \<and> decoration ex_ext (ex_item ''^1.0.0'') ex_versions ex_prefs Rust ex_vuln
       (Some (''fetch failed'' @ [CHR 0x0A, CHR 0x0A] @ '' retry later '')) =
       Inr (\<lparr>deco_range = ex_range,
             hoverMessage =
               \<lparr>md_value = ''#### Errors '' @ [CHR 0x0A] @ ''* fetch failed'' @ [CHR 0x0A] @
                              ''* retry later'' @ [CHR 0x0A],
                isTrusted = False\<rparr>,
             render_position = after,
             contentText = []\<rparr>, ERROR, [])"
proof -
  let ?e = "''fetch failed'' @ [CHR 0x0A, CHR 0x0A] @ '' retry later ''"
  have ne: "?e \<noteq> []"
    by simp
  have segs: "filter (\<lambda>s. s \<noteq> []) (split_on (CHR 0x0A) ?e) =
                [''fetch failed'', '' retry later '']"
    by simp
  have t1: "js_trim ''fetch failed'' = ''fetch failed''"
    by (simp add: js_trim_def js_whitespace_def)
  have t2: "js_trim '' retry later '' = ''retry later''"
    by (simp add: js_trim_def js_whitespace_def)
  have esc: "escapeText ex_ext = (\<lambda>s. s)"
    by (simp add: ex_ext_def)
  have rng: "decoration_range ex_prefs (ex_item ''^1.0.0'') = ex_range"
    by (simp add: decoration_range_def ex_prefs_def ex_item_def)
  have pos: "position ex_prefs = after"
    by (simp add: ex_prefs_def)
  show ?thesis
    unfolding decoration_error_supplied [OF ne] segs
    by (simp add: t1 t2 esc rng pos)
qed


section \<open>The placeholder\<close>

lemma normalize_placeholder: "normalize_value (Str ''?'') = Str ''?''"
  by (simp add: js_replace_def)

lemma autofill_placeholder:
  "autofill item (Str ''?'') (v # vs) =
     Inr [EditReplace (item_range item) (butlast (tl v)), DocumentSave]"
  by (simp add: autofill_def js_substr_strip)

text \<open>
  C4. For the placeholder \<open>?\<close> and the version list \<open>["1.2.3"]\<close> the builder asks for
  \<open>.2.\<close> to be written over \<open>item.range\<close>, then for a save of the document:
  \<open>substr(1, length - 2)\<close> takes the first and the last character off \<open>versions[0]\<close>,
  which carries no quote delimiters. The single-replace handler, given the replace item
  with this value and range (the one that \<open>appendVersions\<close> attaches to the entry of
  the hover document), writes the value \<open>1.2.3\<close> whole over the same range.
\<close>

theorem autofill_strips_unquoted_version:
  "result_events (decoration ex_ext (ex_item ''?'') [''1.2.3''] ex_prefs Rust None None) =
     Some [EditReplace ex_range ''.2.'', DocumentSave]
   \<and> replaceData (ex_item ''?'') ''1.2.3'' = \<lparr>ri_value = ''1.2.3'', ri_range = ex_range\<rparr>
   \<and> replaceVersion (Some ex_editor) (Some (replaceData (ex_item ''?'') ''1.2.3''))
       \<lparr>inProgress = False, replaceItems = []\<rparr> =
       Inr (\<lparr>inProgress = False, replaceItems = []\<rparr>,
            [EditReplace ex_range ''1.2.3'', WorkspaceSave ''file:///Cargo.toml''])"
proof -
  have "autofill (ex_item ''?'') (normalize_value (item_value (ex_item ''?''))) [''1.2.3''] =
          Inr [EditReplace ex_range ''.2.'', DocumentSave]"
    by (simp add: ex_item_def js_replace_def autofill_placeholder)
  from decoration_no_error [OF _ this, of None ex_ext ex_prefs Rust None]
  have w: "result_events (decoration ex_ext (ex_item ''?'') [''1.2.3''] ex_prefs Rust None None) =
             Some [EditReplace ex_range ''.2.'', DocumentSave]"
    by simp
  have d: "replaceData (ex_item ''?'') ''1.2.3'' = \<lparr>ri_value = ''1.2.3'', ri_range = ex_range\<rparr>"
    by (simp add: replaceData_def ex_item_def)
  have r: "item_Range \<lparr>ri_value = ''1.2.3'', ri_range = ex_range\<rparr> = ex_range"
    by (simp add: item_Range_def new_Range_def Let_def isBefore_def ex_range_def)
  have h: "replaceVersion (Some ex_editor) (Some (replaceData (ex_item ''?'') ''1.2.3''))
             \<lparr>inProgress = False, replaceItems = []\<rparr> =
           Inr (\<lparr>inProgress = False, replaceItems = []\<rparr>,
                [EditReplace ex_range ''1.2.3'', WorkspaceSave ''file:///Cargo.toml''])"
    unfolding d by (simp add: replaceVersion_def r ex_editor_def)
  from w d h show ?thesis
    by simp
qed

text \<open>
  The validity test for the placeholder: \<open>validRange\<close> accepts \<open>versions[0]\<close>, here
  \<open>1.2.3\<close>, and yet the classification is \<open>ERROR\<close>, because the test is made on the
  declared \<open>?\<close>.
\<close>

theorem placeholder_validity_counterexample:
  "js_truthy (validRange ex_ext (index0 [''1.2.3'']))
   \<and> result_type (decoration ex_ext (ex_item ''?'') [''1.2.3''] ex_prefs Rust None None) =
       Some ERROR"
proof -
  have a: "autofill (ex_item ''?'') (normalize_value (item_value (ex_item ''?''))) [''1.2.3''] =
          Inr [EditReplace ex_range ''.2.'', DocumentSave]"
    by (simp add: ex_item_def js_replace_def autofill_placeholder)
  have n: "normalize_value (item_value (ex_item ''?'')) = Str ''?''"
    by (simp add: ex_item_def js_replace_def)
  have v: "validRange ex_ext (Str ''?'') = Null" "validRange ex_ext (Str ''1.2.3'') = Str ''1.2.3''"
    by (simp_all add: ex_ext_def ex_validRange_def)
  from decoration_no_error [OF _ a, of None ex_ext ex_prefs Rust None]
  show ?thesis by (simp add: n v classify_def)
qed

text \<open>
  C5, amended. For a declared value that is exactly the placeholder \<open>?\<close>, with no error
  supplied, the auto-fill is requested and a classification is returned with it; the
  validity test of the classification is made on the declared value \<open>?\<close> itself, not on
  \<open>versions[0]\<close>: the classification is \<open>ERROR\<close> exactly when \<open>validRange\<close> rejects
  \<open>?\<close>.
\<close>

theorem placeholder_validity_check:
  assumes "item_value item = Str ''?''"
    and "\<not> error_supplied error"
    and "versions = v # vs"
  shows "\<exists>deco ty.
           decoration ext item versions prefs lang vuln error =
             Inr (deco, ty, [EditReplace (item_range item) (butlast (tl v)), DocumentSave])
           \<and> (ty = ERROR) = (\<not> js_truthy (validRange ext (Str ''?'')))"
proof -
  have n: "normalize_value (item_value item) = Str ''?''"
    using assms(1) by (simp add: js_replace_def)
  have "autofill item (normalize_value (item_value item)) versions =
          Inr [EditReplace (item_range item) (butlast (tl v)), DocumentSave]"
    using assms(3) by (simp add: n autofill_placeholder)
  from decoration_no_error [OF assms(2) this, of ext prefs lang vuln]
  show ?thesis by (simp add: n classify_def)
qed

theorem placeholder_validity_check_witness:
  "item_value (ex_item ''?'') = Str ''?''
   \<and> \<not> error_supplied None
   \<and> \<not> js_truthy (validRange ex_ext (Str ''?''))
   \<and> result_type (decoration ex_ext (ex_item ''?'') ex_versions ex_prefs Rust None None) =
       Some ERROR
   \<and> result_events (decoration ex_ext (ex_item ''?'') ex_versions ex_prefs Rust None None) =
       Some [EditReplace ex_range ''.0.'', DocumentSave]"
proof -
  have h1: "item_value (ex_item ''?'') = Str ''?''"
    by (simp add: ex_item_def)
  have h2: "\<not> error_supplied None"
    by simp
  have h3: "ex_versions = ''2.0.0'' # [''1.5.0'', ''1.0.0'']"
    by (simp add: ex_versions_def)
  have v: "\<not> js_truthy (validRange ex_ext (Str ''?''))"
    by (simp add: ex_ext_def ex_validRange_def)
  have r: "item_range (ex_item ''?'') = ex_range"
    by (simp add: ex_item_def)
  obtain deco ty where
    d: "decoration ex_ext (ex_item ''?'') ex_versions ex_prefs Rust None None =
          Inr (deco, ty, [EditReplace (item_range (ex_item ''?'')) (butlast (tl ''2.0.0'')),
                          DocumentSave])"
    and t: "(ty = ERROR) = (\<not> js_truthy (validRange ex_ext (Str ''?'')))"
    using placeholder_validity_check [OF h1 h2 h3, of ex_ext ex_prefs Rust None]
    by blast
  from t v have "ty = ERROR"
    by blast
  with d show ?thesis
    using h1 h2 v by (simp add: r)
qed


section \<open>The inline vulnerability count\<close>

lemma show_nat_digits: "set (show_nat n) \<subseteq> set ''0123456789''"
proof (induction n rule: show_nat.induct)
  case (1 n)
  have d: "digit_char k \<in> set ''0123456789''" if "k < 10" for k
  proof -
    from that have "k \<in> {0, 1, 2, 3, 4, 5, 6, 7, 8, 9}"
      by auto
    then show ?thesis
      by (auto simp: digit_char_def)
  qed
  show ?case
  proof (cases "n < 10")
    case True
    then show ?thesis
      using d [of n] by (subst show_nat.simps) simp
  next
    case False
    then show ?thesis
      using 1 d [of "n mod 10"] by (subst show_nat.simps) simp
  qed
qed

lemma show_nat_no_dollar: "CHR ''$'' \<notin> set (show_nat n)"
  using show_nat_digits [of n] by auto

text \<open>
  The substitution of the count is a plain one: the digits replace the first
  \<open>${count}\<close> of the template.
\<close>

lemma js_replace_count:
  "find_first ''${count}'' t = Some (b, a) \<Longrightarrow>
   js_replace t ''${count}'' (show_nat n) = b @ show_nat n @ a"
  by (rule js_replace_plain) (simp_all add: show_nat_no_dollar)

text \<open>
  The lookup for the inline count: the range \<open>^1.0.0\<close> resolves to 1.5.0, which has two
  advisories, and yet nothing is appended to the inline text, because the map is asked
  for the declared value \<open>^1.0.0\<close>.
\<close>

theorem resolved_vulnerabilities_counterexample:
  "snd (checkVersion ex_ext (normalize_value (item_value (ex_item ''^1.0.0''))) ex_versions)
     = Str ''1.5.0''
   \<and> vuln_get ex_vuln (Str ''1.5.0'') = Some [''OSV-1'', ''OSV-2'']
   \<and> result_contentText
       (decoration ex_ext (ex_item ''^1.0.0'') ex_versions ex_prefs Rust ex_vuln None) =
       Some ''ok 2.0.0''"
proof -
  have n: "normalize_value (item_value (ex_item ''^1.0.0'')) = Str ''^1.0.0''"
    by (simp add: ex_item_def js_replace_def)
  have a: "autofill (ex_item ''^1.0.0'') (normalize_value (item_value (ex_item ''^1.0.0'')))
             ex_versions = Inr []"
    by (simp add: n autofill_def)
  have c: "checkVersion ex_ext (Str ''^1.0.0'') ex_versions = (True, Str ''1.5.0'')"
    by (simp add: ex_ext_def ex_checkVersion_def)
  have v: "validRange ex_ext (Str ''^1.0.0'') = Str ''>=1.0.0 <2.0.0-0''"
    by (simp add: ex_ext_def ex_validRange_def)
  have g: "vuln_get ex_vuln (Str ''^1.0.0'') = None"
    "vuln_get ex_vuln (Str ''1.5.0'') = Some [''OSV-1'', ''OSV-2'']"
    by (simp_all add: ex_vuln_def)
  have t: "js_replace (compatibleText ex_prefs) ''${version}'' ''2.0.0'' = ''ok 2.0.0''"
    by (simp add: ex_prefs_def js_replace_def)
  have i: "index0 ex_versions = Str ''2.0.0''"
    by (simp add: ex_versions_def)
  have e: "\<not> error_supplied None"
    by simp
  have "result_contentText
       (decoration ex_ext (ex_item ''^1.0.0'') ex_versions ex_prefs Rust ex_vuln None) =
       Some ''ok 2.0.0''"
    unfolding decoration_no_error [OF e a] n c
    by (simp add: classify_def v g i t)
  then show ?thesis
    by (simp add: n c g)
qed

text \<open>
  C7, amended. With no error supplied, if the normalized declared value, as a key of the
  vulnerability map, has at least one advisory, the inline text is the template of the
  classification with \<open>${version}\<close> replaced by \<open>versions[0]\<close>, then a tab character,
  then the \<open>vulnText\<close> template with \<open>${count}\<close> replaced by the number of advisories of
  that declared string.
\<close>

theorem inline_vulnerability_count:
  assumes "\<not> error_supplied error"
    and "normalize_value (item_value item) = Str ''?'' \<longrightarrow> versions \<noteq> []"
    and "vuln_get vuln (normalize_value (item_value item)) = Some advisories"
    and "advisories \<noteq> []"
  shows "\<exists>deco ty evs.
           decoration ext item versions prefs lang vuln error = Inr (deco, ty, evs)
           \<and> contentText deco =
               js_replace (getContentText prefs ty) ''${version}'' (js_ToString (index0 versions))
               @ [CHR 0x09]
               @ js_replace (vulnText prefs) ''${count}'' (show_nat (length advisories))"
proof -
  obtain evs where "autofill item (normalize_value (item_value item)) versions = Inr evs"
    using autofill_returns [of "normalize_value (item_value item)" versions item] assms(2)
    by blast
  from decoration_no_error [OF assms(1) this, of ext prefs lang vuln]
  show ?thesis
    using assms(3,4) by (simp add: Let_def)
qed

theorem inline_vulnerability_count_witness:
  "\<not> error_supplied None
   \<and> normalize_value (item_value (ex_item ''1.5.0'')) \<noteq> Str ''?''
   \<and> vuln_get ex_vuln (normalize_value (item_value (ex_item ''1.5.0''))) =
       Some [''OSV-1'', ''OSV-2'']
   \<and> result_contentText
       (decoration ex_ext (ex_item ''1.5.0'') ex_versions ex_prefs Rust ex_vuln None) =
       Some (''ok 2.0.0'' @ [CHR 0x09] @ ''vulns: 2'')"
proof -
  have h1: "\<not> error_supplied None"
    by simp
  have n: "normalize_value (item_value (ex_item ''1.5.0'')) = Str ''1.5.0''"
    by (simp add: ex_item_def js_replace_def)
  have h2: "normalize_value (item_value (ex_item ''1.5.0'')) = Str ''?'' \<longrightarrow> ex_versions \<noteq> []"
    by (simp add: n)
  have h3: "vuln_get ex_vuln (normalize_value (item_value (ex_item ''1.5.0''))) =
              Some [''OSV-1'', ''OSV-2'']"
    by (simp add: n ex_vuln_def)
  have h4: "[''OSV-1'', ''OSV-2''] \<noteq> []"
    by simp
  have c: "checkVersion ex_ext (Str ''1.5.0'') ex_versions = (True, Str ''1.5.0'')"
    by (simp add: ex_ext_def ex_checkVersion_def)
  have v: "js_truthy (validRange ex_ext (Str ''1.5.0''))"
    by (simp add: ex_ext_def ex_validRange_def)
  have i: "index0 ex_versions = Str ''2.0.0''"
    by (simp add: ex_versions_def)
  have t: "js_replace (compatibleText ex_prefs) ''${version}'' ''2.0.0'' = ''ok 2.0.0''"
    by (simp add: ex_prefs_def js_replace_def)
  have s: "show_nat (Suc (Suc 0)) = ''2''"
    by (simp add: show_nat.simps digit_char_def)
  have k: "js_replace (vulnText ex_prefs) ''${count}'' ''2'' = ''vulns: 2''"
    by (simp add: ex_prefs_def js_replace_def)
  obtain deco ty evs where
    d: "decoration ex_ext (ex_item ''1.5.0'') ex_versions ex_prefs Rust ex_vuln None =
          Inr (deco, ty, evs)"
    and x: "contentText deco =
              js_replace (getContentText ex_prefs ty) ''${version}''
                (js_ToString (index0 ex_versions))
              @ [CHR 0x09]
              @ js_replace (vulnText ex_prefs) ''${count}'' (show_nat (length [''OSV-1'', ''OSV-2'']))"
    using inline_vulnerability_count [OF h1 h2 h3 h4, of ex_ext ex_prefs Rust]
    by blast
  have "result_type (decoration ex_ext (ex_item ''1.5.0'') ex_versions ex_prefs Rust ex_vuln None)
          = Some COMP"
    by (simp only: decoration_result_type [OF h1 h2] n c)
       (simp add: classify_def v i)
  with d have ty: "ty = COMP"
    by simp
  have "contentText deco = ''ok 2.0.0'' @ [CHR 0x09] @ ''vulns: 2''"
    unfolding x ty by (simp add: i t s k)
  with d show ?thesis
    using h1 h3 by (simp add: n)
qed

section \<open>Normalizing the declared value\<close>

lemma js_replace_first: "js_replace s [c] [] = remove1 c s"
proof (cases "c \<in> set s")
  case True
  then obtain b a where s: "s = b @ c # a" and b: "c \<notin> set b"
    by (auto dest: split_list_first)
  have "remove1 c s = b @ a"
    using b by (simp add: s remove1_append)
  then show ?thesis
    using find_first_single [OF b, of a] by (simp add: s js_replace_def)
next
  case False
  then show ?thesis
    by (simp add: js_replace_def find_first_None remove1_idem)
qed

lemma normalize_value_remove1:
  "normalize_value v =
     (case v of Str s \<Rightarrow> Str (remove1 (CHR '','') s) | Undefined \<Rightarrow> Undefined
      | Null \<Rightarrow> Undefined)"
  by (cases v) (simp_all add: js_replace_first)

lemma decoration_externals:
  assumes "\<not> error_supplied error"
    and "checkVersion ext' (normalize_value (item_value item)) versions =
         checkVersion ext (normalize_value (item_value item)) versions"
    and "validRange ext' (normalize_value (item_value item)) =
         validRange ext (normalize_value (item_value item))"
    and "REPLACE_VERSIONS ext' = REPLACE_VERSIONS ext"
  shows "decoration ext' item versions prefs lang vuln error =
         decoration ext item versions prefs lang vuln error"
proof -
  have b: "version_bullets ext' item m vuln prefs lang versions =
           version_bullets ext item m vuln prefs lang versions" for m
    by (simp add: version_bullets_def version_command_def assms(4))
  have c: "classify ext' (normalize_value (item_value item)) versions sat m =
           classify ext (normalize_value (item_value item)) versions sat m" for sat m
    by (simp add: classify_def assms(3))
  show ?thesis
  proof (cases "autofill item (normalize_value (item_value item)) versions")
    case (Inl e)
    then show ?thesis
      using assms(1) by (simp add: decoration_def Let_def case_prod_beta)
  next
    case (Inr evs)
    show ?thesis
      unfolding decoration_no_error [OF assms(1) Inr]
      by (simp add: assms(2) b c)
  qed
qed

text \<open>
  A declared value with no trailing comma that is not used as it is: for the declared
  value \<open>>=1.0, <2.0\<close>, which \<open>validRange\<close> rejects, the classification is \<open>COMP\<close> and
  not \<open>ERROR\<close>, because the builder hands on \<open>>=1.0 <2.0\<close>, the text without its first
  comma.
\<close>

theorem inner_comma_counterexample:
  "\<not> js_truthy (validRange ex_ext_parts (Str ''>=1.0, <2.0''))
   \<and> result_type (decoration ex_ext_parts (ex_item ''>=1.0, <2.0'') ex_versions ex_prefs Rust
                    None None) = Some COMP
   \<and> result_type (decoration ex_ext_parts (ex_item ''>=1.0 <2.0'') ex_versions ex_prefs Rust
                    None None) = Some COMP"
proof -
  have n: "normalize_value (item_value (ex_item ''>=1.0, <2.0'')) = Str ''>=1.0 <2.0''"
    "normalize_value (item_value (ex_item ''>=1.0 <2.0'')) = Str ''>=1.0 <2.0''"
    by (simp_all add: ex_item_def js_replace_def)
  have v: "\<not> js_truthy (validRange ex_ext_parts (Str ''>=1.0, <2.0''))"
    by (simp add: ex_ext_parts_def)
  have c: "classify ex_ext_parts (Str ''>=1.0 <2.0'') ex_versions
             (fst (checkVersion ex_ext_parts (Str ''>=1.0 <2.0'') ex_versions))
             (snd (checkVersion ex_ext_parts (Str ''>=1.0 <2.0'') ex_versions)) = COMP"
    by (simp add: classify_def ex_ext_parts_def ex_versions_def)
  have t1: "result_type (decoration ex_ext_parts (ex_item ''>=1.0, <2.0'') ex_versions ex_prefs
              Rust None None) = Some COMP"
    by (subst decoration_result_type) (simp_all add: n c)
  have t2: "result_type (decoration ex_ext_parts (ex_item ''>=1.0 <2.0'') ex_versions ex_prefs
              Rust None None) = Some COMP"
    by (subst decoration_result_type) (simp_all add: n c)
  from v t1 t2 show ?thesis
    by simp
qed

text \<open>
  C9, amended. The declared value that \<open>decoration\<close> passes to \<open>checkVersion\<close> and to
  \<open>validRange\<close> is \<open>item.value\<close> without its first comma, wherever that comma stands
  (so a single comma at the end is stripped); a declared value with no comma is used as
  it is, and an absent value stays absent. With no error supplied, the classification is
  the one that the answers of \<open>checkVersion\<close> and \<open>validRange\<close> on that text decide, and
  the whole result depends on these two functions through those answers only.
\<close>

theorem declared_value_first_comma:
  assumes "\<not> error_supplied error"
    and "version = (case item_value item of
                      Str s \<Rightarrow> Str (remove1 (CHR '','') s)
                    | Undefined \<Rightarrow> Undefined
                    | Null \<Rightarrow> Undefined)"
    and "version = Str ''?'' \<longrightarrow> versions \<noteq> []"
  shows "result_type (decoration ext item versions prefs lang vuln error) =
           Some (if \<not> js_truthy (validRange ext version) then ERROR
                 else if index0 versions \<noteq> snd (checkVersion ext version versions)
                   then (if fst (checkVersion ext version versions) then COMP else INCOMP)
                 else COMP)
         \<and> (\<forall>ext'. checkVersion ext' version versions = checkVersion ext version versions
                    \<and> validRange ext' version = validRange ext version
                    \<and> REPLACE_VERSIONS ext' = REPLACE_VERSIONS ext \<longrightarrow>
                  decoration ext' item versions prefs lang vuln error =
                  decoration ext item versions prefs lang vuln error)
         \<and> (\<forall>s. item_value item = Str s \<and> CHR '','' \<notin> set s \<longrightarrow> version = Str s)
         \<and> (\<forall>b a. item_value item = Str (b @ '','' @ a) \<and> CHR '','' \<notin> set b \<longrightarrow>
                    version = Str (b @ a))"
proof -
  have n: "normalize_value (item_value item) = version"
    unfolding assms(2) by (rule normalize_value_remove1)
  have ne: "normalize_value (item_value item) = Str ''?'' \<longrightarrow> versions \<noteq> []"
    using assms(3) by (simp add: n)
  have ty: "result_type (decoration ext item versions prefs lang vuln error) =
           Some (if \<not> js_truthy (validRange ext version) then ERROR
                 else if index0 versions \<noteq> snd (checkVersion ext version versions)
                   then (if fst (checkVersion ext version versions) then COMP else INCOMP)
                 else COMP)"
    using decoration_result_type [OF assms(1) ne, of ext prefs lang vuln]
    by (simp add: n classify_def)
  have dep: "decoration ext' item versions prefs lang vuln error =
             decoration ext item versions prefs lang vuln error"
    if "checkVersion ext' version versions = checkVersion ext version versions"
      and "validRange ext' version = validRange ext version"
      and "REPLACE_VERSIONS ext' = REPLACE_VERSIONS ext" for ext'
    using decoration_externals [OF assms(1), of ext' item versions ext prefs lang vuln] that
    by (simp add: n)
  have plain: "version = Str s" if "item_value item = Str s" and "CHR '','' \<notin> set s" for s
    using that by (simp add: assms(2) remove1_idem)
  have first: "version = Str (b @ a)"
    if "item_value item = Str (b @ '','' @ a)" and "CHR '','' \<notin> set b" for b a
    using that by (simp add: assms(2) remove1_append)
  from ty dep plain first show ?thesis
    by blast
qed

theorem declared_value_first_comma_witness:
  "\<not> error_supplied None
   \<and> item_value (ex_item ''^1.0.0,'') = Str ''^1.0.0,''
   \<and> remove1 (CHR '','') ''^1.0.0,'' = ''^1.0.0''
   \<and> \<not> js_truthy (validRange ex_ext (Str ''^1.0.0,''))
   \<and> js_truthy (validRange ex_ext (Str ''^1.0.0''))
   \<and> result_type (decoration ex_ext (ex_item ''^1.0.0,'') ex_versions ex_prefs Rust None None) =
       Some COMP"
proof -
  have h1: "\<not> error_supplied None"
    by simp
  have iv: "item_value (ex_item ''^1.0.0,'') = Str ''^1.0.0,''"
    by (simp add: ex_item_def)
  have rm: "remove1 (CHR '','') ''^1.0.0,'' = ''^1.0.0''"
    by simp
  have h2: "Str ''^1.0.0'' =
              (case item_value (ex_item ''^1.0.0,'') of
                 Str s \<Rightarrow> Str (remove1 (CHR '','') s)
               | Undefined \<Rightarrow> Undefined
               | Null \<Rightarrow> Undefined)"
    by (simp add: iv)
  have h3: "Str ''^1.0.0'' = Str ''?'' \<longrightarrow> ex_versions \<noteq> []"
    by simp
  have v: "\<not> js_truthy (validRange ex_ext (Str ''^1.0.0,''))"
    "js_truthy (validRange ex_ext (Str ''^1.0.0''))"
    by (simp_all add: ex_ext_def ex_validRange_def)
  have c: "checkVersion ex_ext (Str ''^1.0.0'') ex_versions = (True, Str ''1.5.0'')"
    by (simp add: ex_ext_def ex_checkVersion_def)
  have i: "index0 ex_versions = Str ''2.0.0''"
    by (simp add: ex_versions_def)
  note w = declared_value_first_comma
    [where ext = ex_ext and prefs = ex_prefs and lang = Rust and vuln = None, OF h1 h2 h3]
  have "result_type (decoration ex_ext (ex_item ''^1.0.0,'') ex_versions ex_prefs Rust None None) =
          Some (if \<not> js_truthy (validRange ex_ext (Str ''^1.0.0'')) then ERROR
                else if index0 ex_versions \<noteq> snd (checkVersion ex_ext (Str ''^1.0.0'') ex_versions)
                  then (if fst (checkVersion ex_ext (Str ''^1.0.0'') ex_versions) then COMP
                        else INCOMP)
                else COMP)"
    using w by (rule conjunct1)
  then have t: "result_type (decoration ex_ext (ex_item ''^1.0.0,'') ex_versions ex_prefs Rust
                  None None) = Some COMP"
    by (simp add: v c i)
  from h1 iv rm v t show ?thesis
    by (simp only: simp_thms)
qed


section \<open>The entries of the version list\<close>

lemma is_bold_command:
  "is_bold (version_command ext item m vuln prefs lang i v) = (v = m)"
  by (simp add: is_bold_def version_command_def Let_def)

lemma version_bullets_length:
  "length (version_bullets ext item m vuln prefs lang versions) = length versions"
  by (simp add: version_bullets_def)

lemma version_bullets_nth:
  "i < length versions \<Longrightarrow>
   version_bullets ext item m vuln prefs lang versions ! i =
     version_command ext item m vuln prefs lang i (versions ! i)"
  by (simp add: version_bullets_def)

lemma count_indices: "length (filter (\<lambda>i. xs ! i = m) [0..<length xs]) = count_list xs m"
proof (induction xs rule: rev_induct)
  case Nil
  then show ?case by simp
next
  case (snoc x xs)
  have "filter (\<lambda>i. (xs @ [x]) ! i = m) [0..<length xs] =
        filter (\<lambda>i. xs ! i = m) [0..<length xs]"
    by (rule filter_cong) (simp_all add: nth_append)
  with snoc show ?case by simp
qed

lemma bold_bullets_count:
  "length (filter is_bold (version_bullets ext item m vuln prefs lang versions)) =
     count_list versions m"
proof -
  have "filter is_bold (version_bullets ext item m vuln prefs lang versions) =
          map (\<lambda>i. version_command ext item m vuln prefs lang i (versions ! i))
            (filter (\<lambda>i. versions ! i = m) [0..<length versions])"
    by (simp add: version_bullets_def filter_map o_def is_bold_command)
  then show ?thesis
    by (simp add: count_indices)
qed

text \<open>
  Two entries equal to \<open>maxSatisfying\<close>: for the version list \<open>["1.0.0", "1.0.0"]\<close> and
  the declared value 1.0.0 both bullets of the hover document are bold.
\<close>

theorem duplicate_versions_counterexample:
  "snd (checkVersion ex_ext (normalize_value (item_value (ex_item ''1.0.0''))) [''1.0.0'', ''1.0.0''])
     = Str ''1.0.0''
   \<and> result_hover
       (decoration ex_ext (ex_item ''1.0.0'') [''1.0.0'', ''1.0.0''] ex_prefs Rust None None) =
       Some (''#### Versions'' @ getLinks Rust ''serde'' @
             bullet_lines (version_bullets ex_ext (ex_item ''1.0.0'') ''1.0.0'' None ex_prefs Rust
                             [''1.0.0'', ''1.0.0'']))
   \<and> map is_bold (version_bullets ex_ext (ex_item ''1.0.0'') ''1.0.0'' None ex_prefs Rust
                     [''1.0.0'', ''1.0.0'']) = [True, True]"
proof -
  have n: "normalize_value (item_value (ex_item ''1.0.0'')) = Str ''1.0.0''"
    by (simp add: ex_item_def js_replace_def)
  have a: "autofill (ex_item ''1.0.0'') (normalize_value (item_value (ex_item ''1.0.0'')))
             [''1.0.0'', ''1.0.0''] = Inr []"
    by (simp add: n autofill_def)
  have c: "checkVersion ex_ext (Str ''1.0.0'') [''1.0.0'', ''1.0.0''] = (True, Str ''1.0.0'')"
    by (simp add: ex_ext_def ex_checkVersion_def)
  have e: "\<not> error_supplied None"
    by simp
  have k: "key (ex_item ''1.0.0'') = ''serde''"
    by (simp add: ex_item_def)
  have h: "result_hover
       (decoration ex_ext (ex_item ''1.0.0'') [''1.0.0'', ''1.0.0''] ex_prefs Rust None None) =
       Some (''#### Versions'' @ getLinks Rust ''serde'' @
             bullet_lines (version_bullets ex_ext (ex_item ''1.0.0'') ''1.0.0'' None ex_prefs Rust
                             [''1.0.0'', ''1.0.0'']))"
    unfolding decoration_no_error [OF e a] n c
    by (simp add: k appendVulnerabilities_def new_MarkdownString_def)
  have u: "[0..<length [''1.0.0'', ''1.0.0'']] = [0, Suc 0]"
    by (simp add: upt_rec)
  have b: "map is_bold (version_bullets ex_ext (ex_item ''1.0.0'') ''1.0.0'' None ex_prefs Rust
                     [''1.0.0'', ''1.0.0'']) = [True, True]"
    unfolding version_bullets_def u
    by (simp add: is_bold_command)
  show ?thesis
    using h b by (simp add: n c)
qed

text \<open>
  C8, amended. With no error supplied, the hover document ends with one bullet per entry
  of \<open>versions\<close>, in the same order, after the \<open>Versions\<close> heading and the quick links.
  A bullet is bold exactly when its entry equals \<open>maxSatisfying\<close> (the empty string when
  \<open>maxSatisfying\<close> is absent), so the number of bold bullets is the number of entries equal
  to it: exactly one when it occurs once in \<open>versions\<close>, none when it does not occur. The
  first entry and every entry equal to \<open>maxSatisfying\<close> carry the documentation link of
  the ecosystem; no other entry does.
\<close>

theorem hover_version_bullets:
  assumes "\<not> error_supplied error"
    and "normalize_value (item_value item) = Str ''?'' \<longrightarrow> versions \<noteq> []"
    and "m = nullish_empty (snd (checkVersion ext (normalize_value (item_value item)) versions))"
    and "bullets = version_bullets ext item m vuln prefs lang versions"
  shows "result_hover (decoration ext item versions prefs lang vuln error) =
           Some (md_value (appendVulnerabilities (new_MarkdownString []) vuln
                             (normalize_value (item_value item))) @
                 ''#### Versions'' @ getLinks lang (key item) @ bullet_lines bullets)
         \<and> length bullets = length versions
         \<and> (\<forall>i<length versions.
               bullets ! i =
                 (if versions ! i = m then ''**'' else []) @
                 ''['' @ versions ! i @ ''](command:'' @ REPLACE_VERSIONS ext @ ''?'' @
                 encodeURI (JSON_stringify (replaceData item (versions ! i))) @ '')'' @
                 (if i = 0 \<or> versions ! i = m
                  then getDocsLink lang (key item) (versions ! i) else []) @
                 (if versions ! i = m then ''**'' else []) @ ''  '' @
                 version_vulnText prefs vuln (versions ! i)
               \<and> is_bold (bullets ! i) = (versions ! i = m))
         \<and> length (filter is_bold bullets) = count_list versions m"
proof -
  obtain evs where "autofill item (normalize_value (item_value item)) versions = Inr evs"
    using autofill_returns [OF assms(2)] by blast
  from decoration_no_error [OF assms(1) this, of ext prefs lang vuln]
  have hover: "result_hover (decoration ext item versions prefs lang vuln error) =
           Some (md_value (appendVulnerabilities (new_MarkdownString []) vuln
                             (normalize_value (item_value item))) @
                 ''#### Versions'' @ getLinks lang (key item) @ bullet_lines bullets)"
    using assms(3,4) by simp
  have len: "length bullets = length versions"
    using assms(4) by (simp add: version_bullets_length)
  have each: "bullets ! i =
                 (if versions ! i = m then ''**'' else []) @
                 ''['' @ versions ! i @ ''](command:'' @ REPLACE_VERSIONS ext @ ''?'' @
                 encodeURI (JSON_stringify (replaceData item (versions ! i))) @ '')'' @
                 (if i = 0 \<or> versions ! i = m
                  then getDocsLink lang (key item) (versions ! i) else []) @
                 (if versions ! i = m then ''**'' else []) @ ''  '' @
                 version_vulnText prefs vuln (versions ! i)
               \<and> is_bold (bullets ! i) = (versions ! i = m)"
    if "i < length versions" for i
    using that assms(4)
    by (simp add: version_bullets_nth is_bold_command) (simp add: version_command_def Let_def)
  have cnt: "length (filter is_bold bullets) = count_list versions m"
    using assms(4) by (simp add: bold_bullets_count)
  from hover len each cnt show ?thesis
    by blast
qed

theorem hover_version_bullets_witness:
  "\<not> error_supplied None
   \<and> normalize_value (item_value (ex_item ''^1.0.0'')) \<noteq> Str ''?''
   \<and> nullish_empty (snd (checkVersion ex_ext (normalize_value (item_value (ex_item ''^1.0.0'')))
                            ex_versions)) = ''1.5.0''
   \<and> length (version_bullets ex_ext (ex_item ''^1.0.0'') ''1.5.0'' ex_vuln ex_prefs Rust ex_versions)
       = 3
   \<and> map is_bold (version_bullets ex_ext (ex_item ''^1.0.0'') ''1.5.0'' ex_vuln ex_prefs Rust
                     ex_versions) = [False, True, False]
   \<and> length (filter is_bold
         (version_bullets ex_ext (ex_item ''^1.0.0'') ''1.5.0'' ex_vuln ex_prefs Rust ex_versions))
       = 1"
proof -
  let ?bs = "version_bullets ex_ext (ex_item ''^1.0.0'') ''1.5.0'' ex_vuln ex_prefs Rust ex_versions"
  have h1: "\<not> error_supplied None"
    by simp
  have n: "normalize_value (item_value (ex_item ''^1.0.0'')) = Str ''^1.0.0''"
    by (simp add: ex_item_def js_replace_def)
  have h2: "normalize_value (item_value (ex_item ''^1.0.0'')) = Str ''?'' \<longrightarrow> ex_versions \<noteq> []"
    by (simp add: n)
  have c: "checkVersion ex_ext (Str ''^1.0.0'') ex_versions = (True, Str ''1.5.0'')"
    by (simp add: ex_ext_def ex_checkVersion_def)
  have h3: "''1.5.0'' = nullish_empty (snd (checkVersion ex_ext
              (normalize_value (item_value (ex_item ''^1.0.0''))) ex_versions))"
    by (simp add: n c)
  note w = hover_version_bullets
    [where vuln = ex_vuln and prefs = ex_prefs and lang = Rust, OF h1 h2 h3 refl]
  have len: "length ?bs = 3"
    using w by (simp add: ex_versions_def)
  have bi: "\<forall>i<length ex_versions. is_bold (?bs ! i) = (ex_versions ! i = ''1.5.0'')"
    using w by blast
  have b0: "is_bold (?bs ! 0) = False" and b1: "is_bold (?bs ! 1) = True"
    and b2: "is_bold (?bs ! 2) = False"
    using bi by (simp_all add: ex_versions_def)
  have "map is_bold ?bs = [is_bold (?bs ! 0), is_bold (?bs ! 1), is_bold (?bs ! 2)]"
    using len by (intro nth_equalityI) (auto simp: less_Suc_eq numeral_3_eq_3 numeral_2_eq_2)
  then have bold: "map is_bold ?bs = [False, True, False]"
    by (simp only: b0 b1 b2)
  have cnt: "length (filter is_bold ?bs) = 1"
    using w by (simp add: ex_versions_def)
  show ?thesis
    using h1 h3 len bold cnt by (simp add: n)
qed

section \<open>The batch handler applies the queue backwards\<close>

lemma updateAll_loop_take:
  "n \<le> length items \<Longrightarrow>
   updateAll_loop items n evs =
     evs @ map (\<lambda>r. EditReplace (item_Range r) (ri_value r)) (rev (take n items))"
proof (induction n arbitrary: evs)
  case 0
  then show ?case by simp
next
  case (Suc n)
  then have "take (Suc n) items = take n items @ [items ! n]"
    by (simp add: take_Suc_conv_app_nth)
  with Suc show ?case by (simp add: Let_def)
qed

text \<open>
  C2. With an editor and no replace in progress, \<open>updateAll\<close> on a non-empty queue
  replaces once per queued item, last-queued first, and then saves the document: the
  save is the last request and the only one. For a queue of two items \<open>[A, B]\<close> the
  replacement of \<open>B\<close> comes before that of \<open>A\<close>.
\<close>

theorem updateAll_reverse_order:
  assumes "\<not> inProgress st" and "replaceItems st \<noteq> []"
  shows "updateAll (Some ed) st =
           (st, map (\<lambda>r. EditReplace (item_Range r) (ri_value r)) (rev (replaceItems st))
                @ [WorkspaceSave (document_uri ed)])
         \<and> length (filter is_save (snd (updateAll (Some ed) st))) = 1
         \<and> (replaceItems st = [A, B] \<longrightarrow>
              snd (updateAll (Some ed) st) =
                [EditReplace (item_Range B) (ri_value B),
                 EditReplace (item_Range A) (ri_value A),
                 WorkspaceSave (document_uri ed)])"
proof -
  let ?f = "\<lambda>r. EditReplace (item_Range r) (ri_value r)"
  have loop: "updateAll_loop (replaceItems st) (length (replaceItems st)) [] =
                map ?f (rev (replaceItems st))"
    by (simp add: updateAll_loop_take)
  have st: "st\<lparr>inProgress := False\<rparr> = st"
    using assms(1) by simp
  have main: "updateAll (Some ed) st =
           (st, map ?f (rev (replaceItems st)) @ [WorkspaceSave (document_uri ed)])"
    using assms by (simp add: updateAll_def Let_def loop st)
  have "filter is_save (map ?f xs) = []" for xs
    by (induction xs) simp_all
  then have one: "length (filter is_save (snd (updateAll (Some ed) st))) = 1"
    by (simp add: main)
  have two: "replaceItems st = [A, B] \<longrightarrow>
         snd (updateAll (Some ed) st) = [?f B, ?f A, WorkspaceSave (document_uri ed)]"
    by (simp add: main)
  from main one two show ?thesis by blast
qed

theorem updateAll_reverse_order_witness:
  "\<not> inProgress \<lparr>inProgress = False, replaceItems = [ex_A, ex_B]\<rparr>
   \<and> replaceItems \<lparr>inProgress = False, replaceItems = [ex_A, ex_B]\<rparr> \<noteq> []
   \<and> snd (updateAll (Some ex_editor) \<lparr>inProgress = False, replaceItems = [ex_A, ex_B]\<rparr>) =
       [EditReplace (ri_range ex_B) ''0.9.1'', EditReplace (ri_range ex_A) ''1.5.0'',
        WorkspaceSave ''file:///Cargo.toml'']"
  using updateAll_reverse_order
    [of "\<lparr>inProgress = False, replaceItems = [ex_A, ex_B]\<rparr>" ex_editor ex_A ex_B]
  by (simp add: item_Range_def new_Range_def isBefore_def ex_A_def ex_B_def ex_editor_def)

section \<open>The single-replace handler while a replace is in progress\<close>

lemma replaceVersion_in_progress:
  "inProgress st \<Longrightarrow>
   replaceVersion (Some ed) info st = Inr (st, [WorkspaceSave (document_uri ed)])"
  by (cases info) (simp_all add: replaceVersion_def)

text \<open>
  C6. Invoked while \<open>inProgress\<close> is set, \<open>replaceVersion\<close> replaces nothing and leaves
  the state as it was, but it still asks for the document to be saved: the call to
  \<open>workspace.save\<close> stands after the guarded block, not inside it as in \<open>updateAll\<close>.
\<close>

theorem replaceVersion_in_progress_saves:
  "replaceVersion (Some ex_editor) (Some ex_A) \<lparr>inProgress = True, replaceItems = [ex_B]\<rparr> =
     Inr (\<lparr>inProgress = True, replaceItems = [ex_B]\<rparr>, [WorkspaceSave ''file:///Cargo.toml''])"
  by (simp add: replaceVersion_def ex_editor_def)


section \<open>Facts about decoding what \<open>encodeURI\<close> writes\<close>





lemma percent_byte_head: "\<exists>h l. percent_byte b = [CHR ''%'', h, l]"
  by (simp add: percent_byte_def)






























section \<open>The command link of an entry and what the opener makes of it\<close>





















end
